theory Spec2Isabelle
  imports Complex_Main
begin

section \<open>The frame queue of report.md (Backpressure Policy)\<close>

text \<open>
  The Python class of report.md, lines 115 to 126:
  \<^verbatim>\<open>
  class FrameQueue:
      def __init__(self, max_size=5):
          self.queue = deque(maxlen=max_size)
          self.dropped_frames = 0

      def add_frame(self, frame):
          if len(self.queue) >= self.max_size:
              self.queue.popleft()  # Drop oldest frame
              self.dropped_frames += 1
          self.queue.append(frame)
  \<close>
  The object is a record of its attributes. The deque is the list of its elements, oldest
  first, with the bound \<open>maxlen\<close> it was built with. The attribute \<open>max_size\<close> that
  \<open>add_frame\<close> reads is an attribute like the others, so it is a field too; the
  constructor does not assign it, which the model writes as \<open>None\<close>, and reading an
  attribute that is not there raises AttributeError.
\<close>

datatype py_error = AttributeError | IndexError | ValueError

record 'f FrameQueue =
  queue :: "'f list"
  maxlen :: nat
  max_size :: "nat option"
  dropped_frames :: nat

text \<open>
  \<open>__init__\<close>: \<open>deque(maxlen=n)\<close> raises ValueError for a negative \<open>n\<close>. Only
  \<open>queue\<close> and \<open>dropped_frames\<close> are assigned.
\<close>

definition FrameQueue_init :: "int \<Rightarrow> py_error + 'f FrameQueue" where
  "FrameQueue_init n =
     (if n < 0 then Inl ValueError
      else Inr \<lparr>queue = [], maxlen = nat n, max_size = None, dropped_frames = 0\<rparr>)"

text \<open>
  \<open>deque.append\<close> on a bounded deque: a full deque discards its leftmost element
  first, and a deque of bound 0 stores nothing.
\<close>

definition deque_append :: "nat \<Rightarrow> 'f list \<Rightarrow> 'f \<Rightarrow> 'f list" where
  "deque_append bound xs x =
     (if length xs < bound then xs @ [x]
      else if bound = 0 then xs
      else tl xs @ [x])"

text \<open>\<open>deque.popleft\<close>: IndexError on an empty deque.\<close>

definition popleft :: "'f list \<Rightarrow> py_error + ('f \<times> 'f list)" where
  "popleft xs = (case xs of [] \<Rightarrow> Inl IndexError | x # rest \<Rightarrow> Inr (x, rest))"

text \<open>
  \<open>add_frame\<close> has no return statement: the caller gets Python's None, written
  \<open>None\<close> of type \<open>'f option\<close> here, next to the updated object. The popped frame is
  discarded.
\<close>

definition add_frame :: "'f \<Rightarrow> 'f FrameQueue \<Rightarrow> py_error + ('f option \<times> 'f FrameQueue)" where
  "add_frame frame self =
     (case max_size self of
        None \<Rightarrow> Inl AttributeError
      | Some m \<Rightarrow>
          if length (queue self) \<ge> m then
            (case popleft (queue self) of
               Inl e \<Rightarrow> Inl e
             | Inr (_, rest) \<Rightarrow>
                 Inr (None, self\<lparr>queue := deque_append (maxlen self) rest frame,
                                 dropped_frames := dropped_frames self + 1\<rparr>))
          else Inr (None, self\<lparr>queue := deque_append (maxlen self) (queue self) frame\<rparr>))"

text \<open>A run of \<open>add_frame\<close> calls with nothing in between; the first exception ends it.\<close>

fun add_frames :: "'f list \<Rightarrow> 'f FrameQueue \<Rightarrow> py_error + 'f FrameQueue" where
  "add_frames [] self = Inr self"
| "add_frames (f # fs) self =
     (case add_frame f self of
        Inl e \<Rightarrow> Inl e
      | Inr (_, self') \<Rightarrow> add_frames fs self')"

text \<open>
  Modelled from the spec: \<open>takeLatest\<close>, the read side of the queue, is in no file of
  the sources at hand (report.md shows \<open>add_frame\<close> only). The spec (4.1): it
  "removes and returns the most recently enqueued frame (LIFO semantics)", "all frames
  skipped by a LIFO pop are also counted as implicit drops", every drop "increments a
  process-wide \<open>dropped_frames\<close> counter", and on an empty queue it "returns nil without
  error". A drop is "a frame removed from the pipeline", so the skipped frames leave the
  queue with the one returned.
\<close>

definition takeLatest :: "'f FrameQueue \<Rightarrow> 'f option \<times> 'f FrameQueue" where
  "takeLatest self =
     (case rev (queue self) of
        [] \<Rightarrow> (None, self)
      | newest # skipped \<Rightarrow>
          (Some newest,
           self\<lparr>queue := [], dropped_frames := dropped_frames self + length skipped\<rparr>))"

section \<open>The server-inference camera (ServerInferenceCamera.tsx)\<close>

subsection \<open>Values\<close>

text \<open>
  Exceptions of the browser: the TypeError of a property read on \<open>null\<close> or of a
  call of something that is no function; NetworkError for a rejected \<open>fetch\<close>; the
  SecurityError of \<open>toDataURL\<close>; the \<open>Error\<close> thrown at line 127, with the
  status; the SyntaxError of \<open>response.json()\<close>.
\<close>

datatype js_error = TypeError | SecurityError | NetworkError | ServerError nat | SyntaxError

text \<open>
  Timestamps are epoch milliseconds, so integers. A timestamp field of a response holds
  the number the subtraction of lines 134 to 136 converts it to, \<open>NaN\<close> where there
  is none (an absent field, a text that is no numeral). Fractions and infinities are not
  modelled.
\<close>

datatype jsnum = Num int | NaN

fun js_sub :: "jsnum \<Rightarrow> jsnum \<Rightarrow> jsnum" where
  "js_sub (Num a) (Num b) = Num (a - b)"
| "js_sub _ _ = NaN"

text \<open>The decimal numeral of the template string \<^verbatim>\<open>`frame_${frameCounter.current++}`\<close>.\<close>

definition digit_char :: "nat \<Rightarrow> char" where
  "digit_char d = ''0123456789'' ! d"

fun string_of_nat :: "nat \<Rightarrow> string" where
  "string_of_nat n =
     (if n < 10 then [digit_char n]
      else string_of_nat (n div 10) @ [digit_char (n mod 10)])"

declare string_of_nat.simps [simp del]

definition frame_name :: "nat \<Rightarrow> string" where
  "frame_name n = ''frame_'' @ string_of_nat n"

text \<open>The interface \<open>Detection\<close> (lines 15 to 22).\<close>

record Detection =
  label :: string
  score :: rat
  xmin :: rat
  ymin :: rat
  xmax :: rat
  ymax :: rat

text \<open>
  What \<open>response.json()\<close> can hand over where the interface \<open>ServerResponse\<close> (lines
  24 to 30) says \<open>detections: Detection[]\<close>: nothing checks the shape at run time. The
  code tests the field for truthiness and then calls \<open>forEach\<close> on it, so three kinds
  are told apart: a falsy value (absent, \<open>null\<close>, \<open>false\<close>, \<open>0\<close>, the empty string),
  a truthy value that is no array (a number, a string, an object), and an array. An
  array element is \<open>null\<close> or not; \<open>Elem\<close> stands for an element that can be
  destructured.
\<close>

datatype det_elem = NullElem | Elem Detection

datatype detections_field = DetFalsy | DetNonArray | DetArray "det_elem list"

record ServerResponse =
  frame_id :: string
  capture_ts :: jsnum
  recv_ts :: jsnum
  inference_ts :: jsnum
  detections :: detections_field

text \<open>
  The parsed body is the JSON \<open>null\<close> or a value whose properties can be read. How the
  request ends: \<open>fetch\<close> rejects (no connection, a timeout of the network stack), or a
  response with a status arrives whose body parses or not.
\<close>

datatype body = BodyNull | BodyValue ServerResponse

datatype json_outcome = JsonRejected | JsonParsed body

datatype fetch_outcome = FetchRejected | Responded nat json_outcome

text \<open>The object \<open>payload\<close> of lines 110 to 116, the body of the POST request.\<close>

record Payload =
  req_frame_id :: string
  req_capture_ts :: int
  image_data :: string
  model_name :: string
  resolution :: "nat list"

text \<open>
  The overlay canvas, as far as the claims look at it: whether the video frame drawn by
  \<open>capture\<close> covers it, and the boxes drawn on top since.
\<close>

record Canvas =
  video_drawn :: bool
  boxes :: "Detection list"

definition blank :: Canvas where
  "blank = \<lparr>video_drawn = False, boxes = []\<rparr>"

text \<open>
  The component's React state and refs that the pipeline reads or writes (lines 33 to
  49), with the props \<open>modelName\<close> and the state \<open>modelResolution\<close>.
\<close>

record Component =
  inferenceTime :: jsnum
  totalTime :: jsnum
  networkLatency :: jsnum
  serverLatency :: jsnum
  liveDetection :: bool
  frameCounter :: nat
  SSR :: bool
  modelName :: string
  modelResolution :: "nat list"

subsection \<open>sendFrameToServer (lines 103 to 147)\<close>

text \<open>
  Lines 105 to 124, up to the call of \<open>fetch\<close>. The environment gives the data URL of
  \<open>canvas.toDataURL\<close> (\<open>None\<close> when it throws, as on a tainted canvas) and the reading
  of \<open>Date.now()\<close> at line 108. The counter is incremented after the encoding.
\<close>

definition sendFrame_request ::
  "string option \<Rightarrow> int \<Rightarrow> Component \<Rightarrow> Component \<times> (js_error + Payload)" where
  "sendFrame_request url now s =
     (case url of
        None \<Rightarrow> (s, Inl SecurityError)
      | Some imageData \<Rightarrow>
          (s\<lparr>frameCounter := frameCounter s + 1\<rparr>,
           Inr \<lparr>req_frame_id = frame_name (frameCounter s),
                req_capture_ts = now,
                image_data = imageData,
                model_name = modelName s,
                resolution = modelResolution s\<rparr>))"

text \<open>
  Lines 124 to 142, from the settled \<open>fetch\<close> on; \<open>now\<close> is the reading of
  \<open>Date.now()\<close> at line 133. \<open>totalLat\<close> is computed and used nowhere.
\<close>

definition response_ok :: "nat \<Rightarrow> bool" where
  "response_ok status = (200 \<le> status \<and> status \<le> 299)"

definition sendFrame_response ::
  "fetch_outcome \<Rightarrow> int \<Rightarrow> Component \<Rightarrow> Component \<times> (js_error + ServerResponse)" where
  "sendFrame_response outcome now s =
     (case outcome of
        FetchRejected \<Rightarrow> (s, Inl NetworkError)
      | Responded status b \<Rightarrow>
          if \<not> response_ok status then (s, Inl (ServerError status))
          else
            (case b of
               JsonRejected \<Rightarrow> (s, Inl SyntaxError)
             | JsonParsed BodyNull \<Rightarrow> (s, Inl TypeError)
             | JsonParsed (BodyValue result) \<Rightarrow>
                 (let networkLat = js_sub (recv_ts result) (capture_ts result);
                      serverLat = js_sub (inference_ts result) (recv_ts result);
                      totalLat = js_sub (Num now) (capture_ts result)
                  in (s\<lparr>networkLatency := networkLat,
                         serverLatency := serverLat,
                         inferenceTime := serverLat\<rparr>,
                      Inr result))))"

text \<open>
  The \<open>catch\<close> of lines 143 to 146: the error is logged and \<open>null\<close> returned. The
  result stays a sum, \<open>Inl\<close> standing for an exception that reaches the caller.
\<close>

definition catch_null :: "js_error + 'a \<Rightarrow> js_error + 'a option" where
  "catch_null r = (case r of Inl e \<Rightarrow> Inr None | Inr v \<Rightarrow> Inr (Some v))"

text \<open>
  The whole call, for a caller that waits for it: the new state, the request that went
  out (if one did), and what the promise settles to.
\<close>

definition sendFrameToServer ::
  "string option \<Rightarrow> int \<Rightarrow> fetch_outcome \<Rightarrow> int \<Rightarrow> Component
     \<Rightarrow> Component \<times> Payload option \<times> (js_error + ServerResponse option)" where
  "sendFrameToServer url captureTs outcome now s =
     (case sendFrame_request url captureTs s of
        (s1, Inl e) \<Rightarrow> (s1, None, catch_null (Inl e))
      | (s1, Inr payload) \<Rightarrow>
          (case sendFrame_response outcome now s1 of
             (s2, r) \<Rightarrow> (s2, Some payload, catch_null r)))"

subsection \<open>drawDetections and runServerInference (lines 155 to 196)\<close>

text \<open>
  \<open>forEach\<close> over the array: destructuring a \<open>null\<close> element throws, and the boxes
  drawn before it stay.
\<close>

fun draw_each :: "det_elem list \<Rightarrow> Canvas \<Rightarrow> Canvas \<times> js_error option" where
  "draw_each [] cv = (cv, None)"
| "draw_each (NullElem # es) cv = (cv, Some TypeError)"
| "draw_each (Elem d # es) cv = draw_each es (cv\<lparr>boxes := boxes cv @ [d]\<rparr>)"

text \<open>\<open>clearRect\<close> over the whole canvas, then \<open>detections.forEach\<close>.\<close>

definition drawDetections :: "detections_field \<Rightarrow> Canvas \<Rightarrow> Canvas \<times> js_error option" where
  "drawDetections dets cv =
     (case dets of
        DetArray es \<Rightarrow> draw_each es blank
      | _ \<Rightarrow> (blank, Some TypeError))"

text \<open>Lines 193 to 195, on the value \<open>sendFrameToServer\<close> resolved to.\<close>

definition runServerInference_draw ::
  "ServerResponse option \<Rightarrow> Canvas \<Rightarrow> Canvas \<times> js_error option" where
  "runServerInference_draw result cv =
     (case result of
        None \<Rightarrow> (cv, None)
      | Some r \<Rightarrow>
          if detections r \<noteq> DetFalsy then drawDetections (detections r) cv
          else (cv, None))"

subsection \<open>The live-detection loop and the events around it\<close>

text \<open>
  \<open>runLiveDetection\<close> (lines 198 to 214) is an asynchronous function: it runs until
  an \<open>await\<close> that has to wait, and other handlers run in between. A started loop is a
  task that waits either for its request (line 118, holding the locals \<open>startTime\<close>
  and \<open>ctx\<close>) or for the animation frame of line 210. The two awaits of lines 118 and
  130 are one step, since nothing the continuation reads changes between them.
\<close>

datatype task = AwaitFetch int nat | AwaitFrame

text \<open>
  What the environment supplies in one turn of the loop body: the clock at line 205,
  whether the video has a frame to draw, the result of \<open>toDataURL\<close>, the clock at line
  108, and the clock at line 209 for a turn that gets there without waiting. For a
  settled request: its outcome and the clocks at lines 133 and 209.
\<close>

record IterEnv =
  start_now :: int
  video_ready :: bool
  data_url :: "string option"
  capture_now :: int
  idle_now :: int

record ReplyEnv =
  fetched :: fetch_outcome
  result_now :: int
  end_now :: int

text \<open>
  The component with what surrounds it. The canvases ever mounted are numbered;
  \<open>videoCanvasRef\<close> is the one in the page, if any (the component renders
  "Loading..." without canvas or buttons while \<open>SSR\<close> holds, lines 239 to 241).
  \<open>requests\<close>, \<open>captures\<close> and \<open>uncaught\<close> record what happened: the payloads
  posted, the number of calls of \<open>capture\<close> that returned, and the exceptions that
  ended a loop.
\<close>

record System =
  component :: Component
  canvases :: "nat \<Rightarrow> Canvas"
  canvas_count :: nat
  videoCanvasRef :: "nat option"
  tasks :: "task list"
  requests :: "Payload list"
  captures :: nat
  uncaught :: "js_error list"

text \<open>
  \<open>capture\<close> (lines 79 to 101): the video frame is drawn over the whole canvas, so it
  covers what was there; a video without a frame draws nothing. Without a mounted canvas
  the read of \<open>canvas.getContext\<close> throws.
\<close>

definition capture :: "bool \<Rightarrow> System \<Rightarrow> js_error + (nat \<times> System)" where
  "capture ready s =
     (case videoCanvasRef s of
        None \<Rightarrow> Inl TypeError
      | Some c \<Rightarrow>
          Inr (c, s\<lparr>canvases := (canvases s)
                       (c := if ready then \<lparr>video_drawn = True, boxes = []\<rparr> else canvases s c),
                     captures := captures s + 1\<rparr>))"

text \<open>
  One turn of the loop body from line 205 to its first wait. A request that could not
  be built makes \<open>sendFrameToServer\<close> return \<open>null\<close> at once, nothing is drawn, and
  the turn goes on to lines 209 and 210. The result is the task the loop has become,
  or none when an exception ended it.
\<close>

definition iteration :: "IterEnv \<Rightarrow> System \<Rightarrow> task option \<times> System" where
  "iteration env s =
     (case capture (video_ready env) s of
        Inl e \<Rightarrow> (None, s\<lparr>uncaught := uncaught s @ [e]\<rparr>)
      | Inr (ctx, s1) \<Rightarrow>
          (case sendFrame_request (data_url env) (capture_now env) (component s1) of
             (c2, Inl e) \<Rightarrow>
               (Some AwaitFrame,
                s1\<lparr>component := c2\<lparr>totalTime := Num (idle_now env - start_now env)\<rparr>\<rparr>)
           | (c2, Inr payload) \<Rightarrow>
               (Some (AwaitFetch (start_now env) ctx),
                s1\<lparr>component := c2, requests := requests s1 @ [payload]\<rparr>)))"

text \<open>
  The continuation of a task whose request settled: the rest of \<open>sendFrameToServer\<close>,
  the drawing of \<open>runServerInference\<close> on the task's own \<open>ctx\<close>, and lines 209 and
  210. Neither \<open>runServerInference\<close> nor \<open>runLiveDetection\<close> has a \<open>try\<close>, so an
  exception of the drawing ends the loop.
\<close>

definition settle :: "ReplyEnv \<Rightarrow> int \<Rightarrow> nat \<Rightarrow> System \<Rightarrow> task option \<times> System" where
  "settle env startTime ctx s =
     (case sendFrame_response (fetched env) (result_now env) (component s) of
        (c1, r) \<Rightarrow>
          (case catch_null r of
             Inl e \<Rightarrow> (None, s\<lparr>component := c1, uncaught := uncaught s @ [e]\<rparr>)
           | Inr result \<Rightarrow>
               (case runServerInference_draw result (canvases s ctx) of
                  (cv, Some e) \<Rightarrow>
                    (None, s\<lparr>component := c1, canvases := (canvases s)(ctx := cv),
                              uncaught := uncaught s @ [e]\<rparr>)
                | (cv, None) \<Rightarrow>
                    (Some AwaitFrame,
                     s\<lparr>component := c1\<lparr>totalTime := Num (end_now env - startTime)\<rparr>,
                       canvases := (canvases s)(ctx := cv)\<rparr>))))"

text \<open>
  \<open>handleVisibilityChange\<close> (lines 57 to 63), with what the re-rendering does to the
  page: under \<open>SSR\<close> the canvas is unmounted, and when \<open>SSR\<close> falls a new one is
  mounted.
\<close>

definition handleVisibilityChange :: "bool \<Rightarrow> System \<Rightarrow> System" where
  "handleVisibilityChange hidden s =
     (let c = component s;
          c1 = (if hidden then c\<lparr>liveDetection := False\<rparr> else c);
          s1 = s\<lparr>component := c1\<lparr>SSR := hidden\<rparr>\<rparr>
      in if hidden then s1\<lparr>videoCanvasRef := None\<rparr>
         else if SSR c then
           s1\<lparr>canvases := (canvases s1)(canvas_count s1 := blank),
              videoCanvasRef := Some (canvas_count s1),
              canvas_count := canvas_count s1 + 1\<rparr>
         else s1)"

text \<open>
  The events: a click on "Live Detection" (lines 293 to 299, then lines 199 to 203), a
  \<open>visibilitychange\<close> with the value of \<open>document.hidden\<close>, the request of the task
  at a position settling, and the animation frame of the task at a position (the test of
  the \<open>while\<close> at line 204, then the next turn). An event that names no such task does
  nothing, and so does a click while the buttons are not rendered. The other buttons
  (Capture Photo, Switch Camera, Change Model, Reset) are not among the events.
\<close>

datatype event =
    Click IterEnv
  | VisibilityChange bool
  | FetchSettled nat ReplyEnv
  | AnimationFrame nat IterEnv

definition remove_nth :: "nat \<Rightarrow> 'a list \<Rightarrow> 'a list" where
  "remove_nth i xs = take i xs @ drop (Suc i) xs"

definition put_task :: "nat \<Rightarrow> task option \<times> System \<Rightarrow> System" where
  "put_task i r =
     (case r of
        (None, s) \<Rightarrow> s\<lparr>tasks := remove_nth i (tasks s)\<rparr>
      | (Some t, s) \<Rightarrow> s\<lparr>tasks := (tasks s)[i := t]\<rparr>)"

definition runLiveDetection :: "IterEnv \<Rightarrow> System \<Rightarrow> System" where
  "runLiveDetection env s =
     (if liveDetection (component s) then
        s\<lparr>component := (component s)\<lparr>liveDetection := False\<rparr>\<rparr>
      else
        (case iteration env (s\<lparr>component := (component s)\<lparr>liveDetection := True\<rparr>\<rparr>) of
           (None, s') \<Rightarrow> s'
         | (Some t, s') \<Rightarrow> s'\<lparr>tasks := tasks s' @ [t]\<rparr>))"

fun step :: "event \<Rightarrow> System \<Rightarrow> System" where
  "step (Click env) s =
     (if SSR (component s) then s
      else if liveDetection (component s) then
        s\<lparr>component := (component s)\<lparr>liveDetection := False\<rparr>\<rparr>
      else runLiveDetection env s)"
| "step (VisibilityChange hidden) s = handleVisibilityChange hidden s"
| "step (FetchSettled i env) s =
     (if i < length (tasks s) then
        (case tasks s ! i of
           AwaitFetch startTime ctx \<Rightarrow> put_task i (settle env startTime ctx s)
         | AwaitFrame \<Rightarrow> s)
      else s)"
| "step (AnimationFrame i env) s =
     (if i < length (tasks s) then
        (case tasks s ! i of
           AwaitFetch startTime ctx \<Rightarrow> s
         | AwaitFrame \<Rightarrow>
             if liveDetection (component s) then put_task i (iteration env s)
             else s\<lparr>tasks := remove_nth i (tasks s)\<rparr>)
      else s)"

fun run :: "event list \<Rightarrow> System \<Rightarrow> System" where
  "run [] s = s"
| "run (e # es) s = run es (step e s)"

text \<open>
  The component once mounted in a visible tab: the initial values of lines 33 to 49,
  \<open>SSR\<close> set to \<open>document.hidden\<close> by the effect of line 64, one canvas in the page.
\<close>

definition init_comp :: "string \<Rightarrow> nat list \<Rightarrow> Component" where
  "init_comp name res =
     \<lparr>inferenceTime = Num 0, totalTime = Num 0, networkLatency = Num 0,
      serverLatency = Num 0, liveDetection = False, frameCounter = 0, SSR = False,
      modelName = name, modelResolution = res\<rparr>"

definition init_system :: "string \<Rightarrow> nat list \<Rightarrow> System" where
  "init_system name res =
     \<lparr>component = init_comp name res, canvases = (\<lambda>_. blank), canvas_count = 1,
      videoCanvasRef = Some 0, tasks = [], requests = [], captures = 0, uncaught = []\<rparr>"

definition in_flight :: "System \<Rightarrow> nat" where
  "in_flight s = length (filter (\<lambda>t. t \<noteq> AwaitFrame) (tasks s))"

text \<open>
  Two predicates used to state properties. \<open>numbered\<close>: the requests posted so far
  carry the names of the counter values below the counter, in order. \<open>request_failed\<close>:
  the request ended in one of the failures the \<open>try\<close> block of \<open>sendFrameToServer\<close>
  throws on (a rejected \<open>fetch\<close>, a status outside 200 to 299, a body that does not
  parse, the body \<open>null\<close>).
\<close>

definition numbered :: "System \<Rightarrow> bool" where
  "numbered s \<longleftrightarrow>
     map req_frame_id (requests s) = map frame_name [0..<frameCounter (component s)]"

fun request_failed :: "fetch_outcome \<Rightarrow> bool" where
  "request_failed FetchRejected = True"
| "request_failed (Responded status b) =
     (\<not> response_ok status \<or> b = JsonRejected \<or> b = JsonParsed BodyNull)"

section \<open>Properties of the frame queue\<close>

text \<open>
  Claim C3 (the code departs from it). The constructor assigns \<open>queue\<close> and
  \<open>dropped_frames\<close> and nothing else, and \<open>add_frame\<close> begins by reading
  \<open>self.max_size\<close>: on every queue the constructor builds, whatever its bound, the
  first \<open>add_frame\<close> raises AttributeError, and so does every run of calls. Nothing is
  enqueued and nothing evicted: with the bound 1 and the frames 1, 2, and with the default
  bound 5 and six frames, the run ends in the exception where the comment of line 123
  ("Drop oldest frame") has the first frame dropped and the others kept.
\<close>

theorem add_frame_raises_on_new_queue:
  "(case FrameQueue_init n of
      Inl e \<Rightarrow> e = ValueError \<and> n < 0
    | Inr q \<Rightarrow> queue q = [] \<and> add_frame f q = Inl AttributeError
               \<and> add_frames (f # fs) q = Inl AttributeError)
   \<and> (case FrameQueue_init 1 of Inl e \<Rightarrow> Inl e | Inr q \<Rightarrow> add_frames [1, 2 :: nat] q)
       = Inl AttributeError
   \<and> (case FrameQueue_init 5 of Inl e \<Rightarrow> Inl e
       | Inr q \<Rightarrow> add_frames [1, 2, 3, 4, 5, 6 :: nat] q) = Inl AttributeError"
  by (simp add: FrameQueue_init_def add_frame_def)

text \<open>
  Claim C4. On a queue that is not empty \<open>takeLatest\<close> returns the frame enqueued
  last, empties the queue and counts every frame it skipped as dropped; after the frames
  \<open>f1\<close>, \<open>f2\<close>, \<open>f3\<close> it returns \<open>f3\<close> and counts two drops; on the empty queue it
  returns nothing and changes nothing.
\<close>

theorem takeLatest_newest:
  "(queue q \<noteq> [] \<longrightarrow>
      takeLatest q = (Some (last (queue q)),
                      q\<lparr>queue := [], dropped_frames := dropped_frames q + (length (queue q) - 1)\<rparr>))
   \<and> (queue q = [f1, f2, f3] \<longrightarrow>
        fst (takeLatest q) = Some f3
        \<and> dropped_frames (snd (takeLatest q)) = dropped_frames q + 2)
   \<and> (queue q = [] \<longrightarrow> takeLatest q = (None, q))"
proof -
  have a: "queue q \<noteq> [] \<longrightarrow>
      takeLatest q = (Some (last (queue q)),
                      q\<lparr>queue := [], dropped_frames := dropped_frames q + (length (queue q) - 1)\<rparr>)"
  proof
    assume ne: "queue q \<noteq> []"
    then obtain ys y where "queue q = ys @ [y]"
      by (metis append_butlast_last_id)
    then show "takeLatest q = (Some (last (queue q)),
                      q\<lparr>queue := [], dropped_frames := dropped_frames q + (length (queue q) - 1)\<rparr>)"
      by (simp add: takeLatest_def)
  qed
  have b: "queue q = [f1, f2, f3] \<longrightarrow>
        fst (takeLatest q) = Some f3
        \<and> dropped_frames (snd (takeLatest q)) = dropped_frames q + 2"
    by (simp add: takeLatest_def)
  have c: "queue q = [] \<longrightarrow> takeLatest q = (None, q)"
    by (simp add: takeLatest_def)
  from a b c show ?thesis by blast
qed

text \<open>The theorem at the queue 10, 20, 30 and at the empty queue.\<close>

theorem takeLatest_newest_witness:
  "takeLatest \<lparr>queue = [10, 20, 30 :: nat], maxlen = 5, max_size = Some 5, dropped_frames = 0\<rparr>
     = (Some 30, \<lparr>queue = [], maxlen = 5, max_size = Some 5, dropped_frames = 2\<rparr>)
   \<and> takeLatest \<lparr>queue = [] :: nat list, maxlen = 5, max_size = Some 5, dropped_frames = 0\<rparr>
     = (None, \<lparr>queue = [], maxlen = 5, max_size = Some 5, dropped_frames = 0\<rparr>)"
  using takeLatest_newest [of "\<lparr>queue = [10, 20, 30 :: nat], maxlen = 5, max_size = Some 5, dropped_frames = 0\<rparr>" 10 20 30]
    takeLatest_newest [of "\<lparr>queue = [] :: nat list, maxlen = 5, max_size = Some 5, dropped_frames = 0\<rparr>" 10 20 30]
  by simp

section \<open>Properties of the camera component\<close>

subsection \<open>Auxiliary facts\<close>

lemmas send_defs = sendFrameToServer_def sendFrame_request_def sendFrame_response_def
  catch_null_def response_ok_def

lemmas loop_defs = runLiveDetection_def iteration_def settle_def capture_def put_task_def
  remove_nth_def handleVisibilityChange_def runServerInference_draw_def drawDetections_def
  init_system_def init_comp_def blank_def in_flight_def

lemma frame_name_0: "frame_name 0 = ''frame_0''"
  by (simp add: frame_name_def string_of_nat.simps digit_char_def)

text \<open>What the handling of a response leaves alone.\<close>

lemma sendFrame_response_keeps:
  "liveDetection (fst (sendFrame_response outcome now c)) = liveDetection c"
  "SSR (fst (sendFrame_response outcome now c)) = SSR c"
  "frameCounter (fst (sendFrame_response outcome now c)) = frameCounter c"
  "modelName (fst (sendFrame_response outcome now c)) = modelName c"
  "modelResolution (fst (sendFrame_response outcome now c)) = modelResolution c"
  by (simp_all add: sendFrame_response_def Let_def
        split: fetch_outcome.splits json_outcome.splits body.splits)

lemma settle_keeps:
  "liveDetection (component (snd (settle env st ctx s))) = liveDetection (component s)"
  "SSR (component (snd (settle env st ctx s))) = SSR (component s)"
  "frameCounter (component (snd (settle env st ctx s))) = frameCounter (component s)"
  "modelName (component (snd (settle env st ctx s))) = modelName (component s)"
  "modelResolution (component (snd (settle env st ctx s))) = modelResolution (component s)"
  "requests (snd (settle env st ctx s)) = requests s"
  "captures (snd (settle env st ctx s)) = captures s"
  "tasks (snd (settle env st ctx s)) = tasks s"
  using sendFrame_response_keeps [of "fetched env" "result_now env" "component s"]
  by (auto simp: settle_def catch_null_def split: prod.splits sum.splits option.splits)

lemma put_task_pair_keeps:
  "component (put_task i (t, s)) = component s"
  "requests (put_task i (t, s)) = requests s"
  "captures (put_task i (t, s)) = captures s"
  by (simp_all add: put_task_def split: option.splits)

lemma put_task_snd_keeps:
  "component (put_task i r) = component (snd r)"
  "requests (put_task i r) = requests (snd r)"
  "captures (put_task i r) = captures (snd r)"
  by (cases r, simp add: put_task_pair_keeps)+

text \<open>
  With the flag down and no click, nothing is captured and nothing is sent; the same with
  the flag down and the tab hidden, whatever is clicked.
\<close>

lemma step_stopped:
  assumes "\<not> liveDetection (component s)" and "\<forall>env. e \<noteq> Click env"
  shows "\<not> liveDetection (component (step e s)) \<and> captures (step e s) = captures s
           \<and> requests (step e s) = requests s"
proof (cases e)
  case (Click env)
  with assms show ?thesis by simp
next
  case (VisibilityChange hidden)
  with assms show ?thesis by (simp add: handleVisibilityChange_def Let_def)
next
  case (FetchSettled i env)
  with assms show ?thesis
    by (simp add: put_task_snd_keeps settle_keeps split: task.splits)
next
  case (AnimationFrame i env)
  with assms show ?thesis by (simp split: task.splits)
qed

lemma run_stopped:
  assumes "\<not> liveDetection (component s)" and "\<forall>e \<in> set evs. \<forall>env. e \<noteq> Click env"
  shows "\<not> liveDetection (component (run evs s)) \<and> captures (run evs s) = captures s
           \<and> requests (run evs s) = requests s"
  using assms
proof (induction evs arbitrary: s)
  case Nil
  then show ?case by simp
next
  case (Cons e evs)
  from Cons.prems have st: "\<not> liveDetection (component (step e s)) \<and> captures (step e s) = captures s
           \<and> requests (step e s) = requests s"
    by (intro step_stopped) auto
  with Cons.IH [of "step e s"] Cons.prems show ?case by simp
qed

lemma step_hidden:
  assumes "\<not> liveDetection (component s)" and "SSR (component s)" and "e \<noteq> VisibilityChange False"
  shows "\<not> liveDetection (component (step e s)) \<and> SSR (component (step e s))
           \<and> captures (step e s) = captures s \<and> requests (step e s) = requests s"
proof (cases e)
  case (Click env)
  with assms show ?thesis by simp
next
  case (VisibilityChange hidden)
  with assms show ?thesis by (simp add: handleVisibilityChange_def Let_def)
next
  case (FetchSettled i env)
  with assms show ?thesis
    by (simp add: put_task_snd_keeps settle_keeps split: task.splits)
next
  case (AnimationFrame i env)
  with assms show ?thesis by (simp split: task.splits)
qed

lemma run_hidden:
  assumes "\<not> liveDetection (component s)" and "SSR (component s)"
    and "\<forall>e \<in> set evs. e \<noteq> VisibilityChange False"
  shows "\<not> liveDetection (component (run evs s)) \<and> SSR (component (run evs s))
           \<and> captures (run evs s) = captures s \<and> requests (run evs s) = requests s"
  using assms
proof (induction evs arbitrary: s)
  case Nil
  then show ?case by simp
next
  case (Cons e evs)
  from Cons.prems have st: "\<not> liveDetection (component (step e s)) \<and> SSR (component (step e s))
           \<and> captures (step e s) = captures s \<and> requests (step e s) = requests s"
    by (intro step_hidden) auto
  with Cons.IH [of "step e s"] Cons.prems show ?case by simp
qed

lemma hidden_state:
  "\<not> liveDetection (component (handleVisibilityChange True s))"
  "SSR (component (handleVisibilityChange True s))"
  "captures (handleVisibilityChange True s) = captures s"
  "requests (handleVisibilityChange True s) = requests s"
  by (simp_all add: handleVisibilityChange_def Let_def)

lemma no_task_no_step:
  "tasks s = [] \<Longrightarrow> step (AnimationFrame i e) s = s"
  "tasks s = [] \<Longrightarrow> step (FetchSettled i r) s = s"
  by simp_all

lemma click_while_live:
  "\<not> SSR (component s) \<Longrightarrow> liveDetection (component s) \<Longrightarrow>
     step (Click env) s = s\<lparr>component := (component s)\<lparr>liveDetection := False\<rparr>\<rparr>"
  by simp

text \<open>The decimal numeral is injective, and so is the frame name.\<close>

lemma digit_char_inj:
  assumes "a < 10" and "b < 10" and "digit_char a = digit_char b"
  shows "a = b"
proof -
  have cases10: "\<And>n::nat. n < 10 \<Longrightarrow> n \<in> {0, 1, 2, 3, 4, 5, 6, 7, 8, 9}"
    by auto
  from cases10 [OF assms(1)] cases10 [OF assms(2)] assms(3) show ?thesis
    by (auto simp: digit_char_def)
qed

lemma string_of_nat_length: "0 < length (string_of_nat n)"
  by (subst string_of_nat.simps) simp

lemma string_of_nat_inj: "string_of_nat m = string_of_nat n \<Longrightarrow> m = n"
proof (induction m arbitrary: n rule: string_of_nat.induct)
  case (1 m)
  show ?case
  proof (cases "m < 10")
    case small_m: True
    show ?thesis
    proof (cases "n < 10")
      case True
      with small_m "1.prems" have "digit_char m = digit_char n"
        by (simp add: string_of_nat.simps [of m] string_of_nat.simps [of n])
      with small_m True show ?thesis by (rule digit_char_inj)
    next
      case False
      with small_m "1.prems" have "length (string_of_nat (n div 10)) = 0"
        by (simp add: string_of_nat.simps [of m] string_of_nat.simps [of n])
      with string_of_nat_length [of "n div 10"] show ?thesis by simp
    qed
  next
    case big_m: False
    show ?thesis
    proof (cases "n < 10")
      case True
      with big_m "1.prems" have "length (string_of_nat (m div 10)) = 0"
        by (simp add: string_of_nat.simps [of m] string_of_nat.simps [of n])
      with string_of_nat_length [of "m div 10"] show ?thesis by simp
    next
      case False
      with big_m "1.prems" have eq: "string_of_nat (m div 10) = string_of_nat (n div 10)"
          "digit_char (m mod 10) = digit_char (n mod 10)"
        by (simp_all add: string_of_nat.simps [of m] string_of_nat.simps [of n])
      from "1.IH" [OF big_m eq(1)] have d: "m div 10 = n div 10" .
      have "m mod 10 = n mod 10"
        using eq(2) by (intro digit_char_inj) simp_all
      with d show ?thesis
        by (metis div_mult_mod_eq)
    qed
  qed
qed

lemma frame_name_inj: "frame_name m = frame_name n \<Longrightarrow> m = n"
  by (simp add: frame_name_def string_of_nat_inj)

lemma distinct_frame_names: "distinct (map frame_name [0..<n])"
  by (simp add: distinct_map inj_on_def) (blast dest: frame_name_inj)

text \<open>Every step keeps the requests numbered by the counter.\<close>

lemma iteration_numbered:
  assumes "numbered s"
  shows "numbered (snd (iteration env s))"
  using assms
  by (auto simp: numbered_def iteration_def capture_def sendFrame_request_def
        split: option.splits)

lemma put_task_numbered: "numbered (put_task i r) = numbered (snd r)"
  by (simp add: numbered_def put_task_snd_keeps)

lemma flag_numbered: "numbered (s\<lparr>component := (component s)\<lparr>liveDetection := b\<rparr>\<rparr>) = numbered s"
  by (simp add: numbered_def)

lemma tasks_numbered: "numbered (s\<lparr>tasks := ts\<rparr>) = numbered s"
  by (simp add: numbered_def)

lemma step_numbered:
  assumes "numbered s"
  shows "numbered (step e s)"
proof (cases e)
  case (Click env)
  have "numbered (snd (iteration env (s\<lparr>component := (component s)\<lparr>liveDetection := True\<rparr>\<rparr>)))"
    using assms by (intro iteration_numbered) (simp add: flag_numbered)
  with Click assms show ?thesis
    by (auto simp: runLiveDetection_def flag_numbered tasks_numbered split: prod.splits option.splits)
next
  case (VisibilityChange hidden)
  with assms show ?thesis
    by (simp add: handleVisibilityChange_def Let_def numbered_def)
next
  case (FetchSettled i env)
  with assms show ?thesis
    by (simp add: put_task_numbered split: task.splits) (simp add: numbered_def settle_keeps)
next
  case (AnimationFrame i env)
  with assms show ?thesis
    by (simp add: put_task_numbered iteration_numbered tasks_numbered split: task.splits)
qed

lemma run_numbered: "numbered s \<Longrightarrow> numbered (run evs s)"
  by (induction evs arbitrary: s) (simp_all add: step_numbered)


text \<open>
  A single loop that nothing restarts has at most one request under way: without a click
  the number of tasks does not grow.
\<close>

lemma step_one_task:
  assumes "length (tasks s) \<le> 1" and "\<forall>env. e \<noteq> Click env"
  shows "length (tasks (step e s)) \<le> 1"
proof (cases e)
  case (Click env)
  with assms show ?thesis by simp
next
  case (VisibilityChange hidden)
  with assms show ?thesis by (simp add: handleVisibilityChange_def Let_def)
next
  case (FetchSettled i env)
  with assms show ?thesis
    by (cases "settle env (case tasks s ! i of AwaitFetch st c \<Rightarrow> st | _ \<Rightarrow> 0)
                 (case tasks s ! i of AwaitFetch st c \<Rightarrow> c | _ \<Rightarrow> 0) s")
       (auto simp: put_task_def remove_nth_def settle_keeps split: task.splits option.splits
          dest: arg_cong [where f = "\<lambda>r. tasks (snd r)"])
next
  case (AnimationFrame i env)
  with assms show ?thesis
    by (auto simp: put_task_def remove_nth_def iteration_def capture_def sendFrame_request_def
          split: task.splits option.splits prod.splits sum.splits)
qed

lemma run_one_task:
  assumes "length (tasks s) \<le> 1" and "\<forall>e \<in> set evs. \<forall>env. e \<noteq> Click env"
  shows "in_flight (run evs s) \<le> 1"
  using assms
proof (induction evs arbitrary: s)
  case Nil
  have "in_flight s \<le> length (tasks s)"
    unfolding in_flight_def by (rule length_filter_le)
  with Nil show ?case by simp
next
  case (Cons e evs)
  from Cons.prems have "length (tasks (step e s)) \<le> 1"
    by (intro step_one_task) auto
  with Cons.IH [of "step e s"] Cons.prems show ?case by simp
qed

subsection \<open>Latencies\<close>





text \<open>
  Claim C2, as amended. \<open>sendFrameToServer\<close> records the latencies of every response
  with an acceptable status as it computes them, without a test of their sign: a
  response with \<open>recv_ts < capture_ts\<close> is recorded with a negative network latency.
  Nothing else of the component changes but the frame counter: there is no window of
  samples, no percentile and no counter of rejections.
\<close>

theorem latencies_recorded_unchecked:
  assumes "response_ok status"
  shows "fst (sendFrameToServer (Some url) captureTs
                (Responded status (JsonParsed (BodyValue r))) now s)
           = s\<lparr>frameCounter := frameCounter s + 1,
                networkLatency := js_sub (recv_ts r) (capture_ts r),
                serverLatency := js_sub (inference_ts r) (recv_ts r),
                inferenceTime := js_sub (inference_ts r) (recv_ts r)\<rparr>
         \<and> (capture_ts r = Num c \<and> recv_ts r = Num v \<and> inference_ts r = Num i \<longrightarrow>
              networkLatency (fst (sendFrameToServer (Some url) captureTs
                (Responded status (JsonParsed (BodyValue r))) now s)) = Num (v - c)
              \<and> serverLatency (fst (sendFrameToServer (Some url) captureTs
                (Responded status (JsonParsed (BodyValue r))) now s)) = Num (i - v))"
  using assms
  by (simp add: sendFrameToServer_def sendFrame_request_def sendFrame_response_def
        catch_null_def Let_def)

text \<open>The theorem at a response received, by its clock, 10 ms before the capture.\<close>

theorem latencies_recorded_unchecked_witness:
  "fst (sendFrameToServer (Some ''jpeg'') 2000
          (Responded 200 (JsonParsed (BodyValue
             \<lparr>frame_id = ''frame_7'', capture_ts = Num 2000, recv_ts = Num 1990,
              inference_ts = Num 2030, detections = DetArray []\<rparr>))) 2040
          (init_comp ''yolo'' [640, 640]))
     = (init_comp ''yolo'' [640, 640])
         \<lparr>frameCounter := 1, networkLatency := Num (- 10), serverLatency := Num 40,
          inferenceTime := Num 40\<rparr>"
  using latencies_recorded_unchecked [of 200 "''jpeg''" 2000
      "\<lparr>frame_id = ''frame_7'', capture_ts = Num 2000, recv_ts = Num 1990,
        inference_ts = Num 2030, detections = DetArray []\<rparr>" 2040
      "init_comp ''yolo'' [640, 640]" 2000 1990 2030]
  by (simp add: response_ok_def init_comp_def)

text \<open>
  Claim C2 as stated fails: the sample with \<open>recv_ts = 900 < capture_ts = 1000\<close> is
  recorded, as a network latency of -100.
\<close>

theorem negative_latency_recorded:
  "networkLatency (fst (sendFrameToServer (Some ''jpeg'') 1000
      (Responded 200 (JsonParsed (BodyValue
         \<lparr>frame_id = ''frame_0'', capture_ts = Num 1000, recv_ts = Num 900,
          inference_ts = Num 940, detections = DetArray []\<rparr>))) 1010
      (init_comp ''yolo'' [640, 640]))) = Num (- 100)"
  by code_simp


subsection \<open>Errors\<close>

text \<open>
  Claim C5 (the code departs from it). A response whose \<open>detections\<close> is truthy but
  no array passes the test of line 193, and \<open>detections.forEach\<close> throws in
  \<open>drawDetections\<close>, outside every \<open>try\<close>: the loop ends with the exception, with
  \<open>liveDetection\<close> still set. No animation frame brings it back, and the next click
  on "Live Detection" only clears the flag.
\<close>

theorem malformed_detections_end_loop:
  "(let s = run [Click \<lparr>start_now = 995, video_ready = True, data_url = Some ''jpeg'',
                        capture_now = 1000, idle_now = 1000\<rparr>,
                 FetchSettled 0
                   \<lparr>fetched = Responded 200 (JsonParsed (BodyValue
                        \<lparr>frame_id = ''frame_0'', capture_ts = Num 1000, recv_ts = Num 1050,
                         inference_ts = Num 1090, detections = DetNonArray\<rparr>)),
                    result_now = 1120, end_now = 1125\<rparr>]
              (init_system ''yolo'' [640, 640])
    in tasks s = [] \<and> uncaught s = [TypeError] \<and> liveDetection (component s)
       \<and> captures s = 1
       \<and> (\<forall>i env. step (AnimationFrame i env) s = s)
       \<and> (\<forall>env. \<not> liveDetection (component (step (Click env) s))
                 \<and> tasks (step (Click env) s) = []))"
  by (simp add: send_defs loop_defs Let_def frame_name_0)

text \<open>
  Claim C9, as amended. \<open>sendFrameToServer\<close> never lets an exception reach its
  caller: it always settles to a value. That value is \<open>null\<close> when the frame cannot
  be encoded, when \<open>fetch\<close> rejects, on a status outside 200 to 299, on a body that
  does not parse and on the body \<open>null\<close>; in every other case it is the parsed body,
  returned as it is, whatever its shape. So no failure inside \<open>sendFrameToServer\<close>
  ends the loop. After a failed request the turn draws nothing, leaves every canvas as
  it was and raises nothing, and the task of the loop waits for the next animation
  frame; after a frame that could not be encoded the turn sends nothing, leaves the
  canvases as \<open>capture\<close> left them and raises nothing, and the task waits for the next
  animation frame as well.
\<close>

theorem sendFrameToServer_never_throws:
  "(\<exists>result. snd (snd (sendFrameToServer url captureTs outcome now s)) = Inr result)
   \<and> (url = None \<or> request_failed outcome \<longrightarrow>
        snd (snd (sendFrameToServer url captureTs outcome now s)) = Inr None)
   \<and> (response_ok status \<longrightarrow>
        snd (snd (sendFrameToServer (Some img) captureTs
                    (Responded status (JsonParsed (BodyValue r))) now s)) = Inr (Some r))
   \<and> (url \<noteq> None \<and> \<not> request_failed outcome \<longrightarrow>
        (\<exists>status r. outcome = Responded status (JsonParsed (BodyValue r))
           \<and> snd (snd (sendFrameToServer url captureTs outcome now s)) = Inr (Some r)))
   \<and> (request_failed (fetched env) \<longrightarrow>
        fst (settle env startTime ctx sys) = Some AwaitFrame
        \<and> canvases (snd (settle env startTime ctx sys)) = canvases sys
        \<and> uncaught (snd (settle env startTime ctx sys)) = uncaught sys
        \<and> tasks (snd (settle env startTime ctx sys)) = tasks sys)
   \<and> (data_url ienv = None \<and> capture (video_ready ienv) sys = Inr (c, sys1) \<longrightarrow>
        fst (iteration ienv sys) = Some AwaitFrame
        \<and> canvases (snd (iteration ienv sys)) = canvases sys1
        \<and> uncaught (snd (iteration ienv sys)) = uncaught sys
        \<and> requests (snd (iteration ienv sys)) = requests sys
        \<and> tasks (snd (iteration ienv sys)) = tasks sys)
   \<and> (i < length (tasks sys) \<and> tasks sys ! i = AwaitFetch startTime ctx
        \<and> request_failed (fetched env) \<longrightarrow>
        tasks (step (FetchSettled i env) sys) = (tasks sys)[i := AwaitFrame]
        \<and> uncaught (step (FetchSettled i env) sys) = uncaught sys)
   \<and> (i < length (tasks sys) \<and> tasks sys ! i = AwaitFrame
        \<and> liveDetection (component sys) \<and> videoCanvasRef sys \<noteq> None
        \<and> data_url ienv = None \<longrightarrow>
        tasks (step (AnimationFrame i ienv) sys) = tasks sys
        \<and> uncaught (step (AnimationFrame i ienv) sys) = uncaught sys)"
proof -
  have total: "\<exists>result. snd (snd (sendFrameToServer url captureTs outcome now s)) = Inr result"
    by (auto simp: sendFrameToServer_def catch_null_def split: prod.splits sum.splits)
  have null: "url = None \<or> request_failed outcome \<longrightarrow>
      snd (snd (sendFrameToServer url captureTs outcome now s)) = Inr None"
    by (cases outcome)
       (auto simp: sendFrameToServer_def sendFrame_request_def sendFrame_response_def
          catch_null_def split: option.splits)
  have any: "\<And>st im b. response_ok st \<Longrightarrow>
        snd (snd (sendFrameToServer (Some im) captureTs
                    (Responded st (JsonParsed (BodyValue b))) now s)) = Inr (Some b)"
    by (simp add: sendFrameToServer_def sendFrame_request_def sendFrame_response_def
          catch_null_def Let_def)
  have same: "response_ok status \<longrightarrow>
        snd (snd (sendFrameToServer (Some img) captureTs
                    (Responded status (JsonParsed (BodyValue r))) now s)) = Inr (Some r)"
    using any by blast
  have other: "url \<noteq> None \<and> \<not> request_failed outcome \<longrightarrow>
        (\<exists>status r. outcome = Responded status (JsonParsed (BodyValue r))
           \<and> snd (snd (sendFrameToServer url captureTs outcome now s)) = Inr (Some r))"
  proof
    assume a: "url \<noteq> None \<and> \<not> request_failed outcome"
    then obtain im where url: "url = Some im" by auto
    from a obtain st b where o: "outcome = Responded st b"
      by (cases outcome) auto
    with a have ok: "response_ok st" and b: "b \<noteq> JsonRejected" "b \<noteq> JsonParsed BodyNull"
      by auto
    from b obtain v where r: "b = JsonParsed (BodyValue v)"
      by (cases b) (auto, metis body.exhaust)
    from any [OF ok, of im v]
    have "snd (snd (sendFrameToServer url captureTs outcome now s)) = Inr (Some v)"
      by (simp add: url o r)
    with o r show "\<exists>status r. outcome = Responded status (JsonParsed (BodyValue r))
           \<and> snd (snd (sendFrameToServer url captureTs outcome now s)) = Inr (Some r)"
      by blast
  qed
  have goes_on: "request_failed (fetched env) \<longrightarrow>
        fst (settle env startTime ctx sys) = Some AwaitFrame
        \<and> canvases (snd (settle env startTime ctx sys)) = canvases sys
        \<and> uncaught (snd (settle env startTime ctx sys)) = uncaught sys
        \<and> tasks (snd (settle env startTime ctx sys)) = tasks sys"
    by (cases "fetched env")
       (auto simp: settle_def sendFrame_response_def catch_null_def runServerInference_draw_def)
  have unsent: "data_url ienv = None \<and> capture (video_ready ienv) sys = Inr (c, sys1) \<longrightarrow>
        fst (iteration ienv sys) = Some AwaitFrame
        \<and> canvases (snd (iteration ienv sys)) = canvases sys1
        \<and> uncaught (snd (iteration ienv sys)) = uncaught sys
        \<and> requests (snd (iteration ienv sys)) = requests sys
        \<and> tasks (snd (iteration ienv sys)) = tasks sys"
    by (auto simp: iteration_def capture_def sendFrame_request_def split: option.splits)
  have settled: "i < length (tasks sys) \<and> tasks sys ! i = AwaitFetch startTime ctx
        \<and> request_failed (fetched env) \<longrightarrow>
        tasks (step (FetchSettled i env) sys) = (tasks sys)[i := AwaitFrame]
        \<and> uncaught (step (FetchSettled i env) sys) = uncaught sys"
    using goes_on
    by (cases "settle env startTime ctx sys") (auto simp: put_task_def)
  have framed: "i < length (tasks sys) \<and> tasks sys ! i = AwaitFrame
        \<and> liveDetection (component sys) \<and> videoCanvasRef sys \<noteq> None
        \<and> data_url ienv = None \<longrightarrow>
        tasks (step (AnimationFrame i ienv) sys) = tasks sys
        \<and> uncaught (step (AnimationFrame i ienv) sys) = uncaught sys"
    by (auto simp: put_task_def iteration_def capture_def sendFrame_request_def
          list_update_same_conv)
  from total null same other goes_on unsent settled framed show ?thesis by blast
qed

text \<open>
  The theorem at a response of status 500, at a response of status 200 with a body of
  the wrong shape, and at a frame that cannot be encoded, in a component whose loop is
  running.
\<close>

theorem sendFrameToServer_never_throws_witness:
  "(let good = \<lparr>frame_id = ''frame_0'', capture_ts = Num 1000, recv_ts = Num 1050,
                 inference_ts = Num 1090, detections = DetNonArray\<rparr>;
        failed = \<lparr>fetched = Responded 500 JsonRejected, result_now = 1120, end_now = 1125\<rparr>;
        unencoded = \<lparr>start_now = 995, video_ready = False, data_url = None,
                      capture_now = 1000, idle_now = 1001\<rparr>;
        sys = (init_system ''yolo'' [640, 640])
                \<lparr>component := (init_comp ''yolo'' [640, 640])\<lparr>liveDetection := True\<rparr>\<rparr>
    in snd (snd (sendFrameToServer (Some ''jpeg'') 1000 (Responded 500 JsonRejected) 1120
                   (init_comp ''yolo'' [640, 640]))) = Inr None
       \<and> snd (snd (sendFrameToServer (Some ''jpeg'') 1000
                   (Responded 200 (JsonParsed (BodyValue good))) 1120
                   (init_comp ''yolo'' [640, 640]))) = Inr (Some good)
       \<and> fst (settle failed 995 0 sys) = Some AwaitFrame
       \<and> fst (iteration unencoded sys) = Some AwaitFrame
       \<and> tasks (step (FetchSettled 0 failed) (sys\<lparr>tasks := [AwaitFetch 995 0]\<rparr>)) = [AwaitFrame]
       \<and> tasks (step (AnimationFrame 0 unencoded) (sys\<lparr>tasks := [AwaitFrame]\<rparr>)) = [AwaitFrame])"
  using sendFrameToServer_never_throws [where url = "Some ''jpeg''" and captureTs = 1000
      and outcome = "Responded 500 JsonRejected" and now = 1120
      and s = "init_comp ''yolo'' [640, 640]" and status = 200 and img = "''jpeg''"
      and r = "\<lparr>frame_id = ''frame_0'', capture_ts = Num 1000, recv_ts = Num 1050,
                 inference_ts = Num 1090, detections = DetNonArray\<rparr>"
      and env = "\<lparr>fetched = Responded 500 JsonRejected, result_now = 1120, end_now = 1125\<rparr>"
      and startTime = 995 and ctx = 0
      and sys = "(init_system ''yolo'' [640, 640])
                \<lparr>component := (init_comp ''yolo'' [640, 640])\<lparr>liveDetection := True\<rparr>,
                 tasks := [AwaitFetch 995 0]\<rparr>"
      and ienv = "\<lparr>start_now = 995, video_ready = False, data_url = None,
                      capture_now = 1000, idle_now = 1001\<rparr>"
      and c = 0
      and ?sys1.0 = "(init_system ''yolo'' [640, 640])
                \<lparr>component := (init_comp ''yolo'' [640, 640])\<lparr>liveDetection := True\<rparr>,
                 tasks := [AwaitFetch 995 0], captures := 1\<rparr>"
      and i = 0]
    sendFrameToServer_never_throws [where url = "Some ''jpeg''" and captureTs = 1000
      and outcome = "Responded 200 (JsonParsed (BodyValue
               \<lparr>frame_id = ''frame_0'', capture_ts = Num 1000, recv_ts = Num 1050,
                 inference_ts = Num 1090, detections = DetNonArray\<rparr>))" and now = 1120
      and s = "init_comp ''yolo'' [640, 640]" and status = 200 and img = "''jpeg''"
      and r = "\<lparr>frame_id = ''frame_0'', capture_ts = Num 1000, recv_ts = Num 1050,
                 inference_ts = Num 1090, detections = DetNonArray\<rparr>"
      and env = "\<lparr>fetched = Responded 500 JsonRejected, result_now = 1120, end_now = 1125\<rparr>"
      and startTime = 995 and ctx = 0
      and sys = "(init_system ''yolo'' [640, 640])
                \<lparr>component := (init_comp ''yolo'' [640, 640])\<lparr>liveDetection := True\<rparr>,
                 tasks := [AwaitFrame]\<rparr>"
      and ienv = "\<lparr>start_now = 995, video_ready = False, data_url = None,
                      capture_now = 1000, idle_now = 1001\<rparr>"
      and c = 0
      and ?sys1.0 = "(init_system ''yolo'' [640, 640])
                \<lparr>component := (init_comp ''yolo'' [640, 640])\<lparr>liveDetection := True\<rparr>,
                 tasks := [AwaitFrame], captures := 1\<rparr>"
      and i = 0]
  by (simp add: response_ok_def Let_def init_system_def init_comp_def capture_def
        settle_def iteration_def sendFrame_request_def sendFrame_response_def catch_null_def
        runServerInference_draw_def put_task_def)

text \<open>
  Claim C9 as stated fails. A body that parses but has not the declared shape is
  returned as it is, not \<open>null\<close>; and with a \<open>null\<close> among the detections the
  loop is ended by the failure of that one request: the first box is drawn, then the
  destructuring throws.
\<close>

theorem null_detection_ends_loop:
  "(let cat = \<lparr>label = ''cat'', score = 9 / 10, xmin = 0, ymin = 0, xmax = 1 / 2, ymax = 1 / 2\<rparr>;
        result = \<lparr>frame_id = ''frame_0'', capture_ts = Num 1000, recv_ts = Num 1050,
                   inference_ts = Num 1090, detections = DetArray [Elem cat, NullElem]\<rparr>;
        s = run [Click \<lparr>start_now = 995, video_ready = True, data_url = Some ''jpeg'',
                        capture_now = 1000, idle_now = 1000\<rparr>,
                 FetchSettled 0 \<lparr>fetched = Responded 200 (JsonParsed (BodyValue result)),
                                 result_now = 1120, end_now = 1125\<rparr>]
              (init_system ''yolo'' [640, 640])
    in snd (snd (sendFrameToServer (Some ''jpeg'') 1000
                   (Responded 200 (JsonParsed (BodyValue result))) 1120
                   (init_comp ''yolo'' [640, 640]))) = Inr (Some result)
       \<and> tasks s = [] \<and> uncaught s = [TypeError] \<and> liveDetection (component s)
       \<and> boxes (canvases s 0) = [cat])"
  by code_simp

subsection \<open>Order of results\<close>




subsection \<open>Visibility\<close>

text \<open>
  Claim C7, as amended. On a visibility-loss signal the live-detection flag is cleared,
  and from then on no frame is captured and no request is sent as long as the tab stays
  hidden (whatever else happens), and also after it is shown again as long as "Live
  Detection" is not clicked. The signal that the tab is visible again only brings the
  camera view back: it leaves the flag and the loops as they are, so detection does not
  resume by itself.
\<close>

theorem hidden_stops_capture:
  "((\<forall>e \<in> set evs. e \<noteq> VisibilityChange False) \<or> (\<forall>e \<in> set evs. \<forall>env. e \<noteq> Click env) \<longrightarrow>
      \<not> liveDetection (component (run evs (handleVisibilityChange True s)))
      \<and> captures (run evs (handleVisibilityChange True s)) = captures s
      \<and> requests (run evs (handleVisibilityChange True s)) = requests s)
   \<and> liveDetection (component (handleVisibilityChange False s)) = liveDetection (component s)
   \<and> tasks (handleVisibilityChange False s) = tasks s"
proof -
  let ?h = "handleVisibilityChange True s"
  have a: "(\<forall>e \<in> set evs. e \<noteq> VisibilityChange False) \<Longrightarrow>
      \<not> liveDetection (component (run evs ?h)) \<and> captures (run evs ?h) = captures s
      \<and> requests (run evs ?h) = requests s"
    using run_hidden [of ?h evs] by (simp add: hidden_state)
  have b: "(\<forall>e \<in> set evs. \<forall>env. e \<noteq> Click env) \<Longrightarrow>
      \<not> liveDetection (component (run evs ?h)) \<and> captures (run evs ?h) = captures s
      \<and> requests (run evs ?h) = requests s"
    using run_stopped [of ?h evs] by (simp add: hidden_state)
  have c: "liveDetection (component (handleVisibilityChange False s)) = liveDetection (component s)
      \<and> tasks (handleVisibilityChange False s) = tasks s"
    by (simp add: handleVisibilityChange_def Let_def)
  from a b c show ?thesis by blast
qed

text \<open>
  The theorem at a running loop whose tab is hidden: its request fails, a click and an
  animation frame follow while the tab is hidden.
\<close>

theorem hidden_stops_capture_witness:
  "(let reply = \<lparr>fetched = FetchRejected, result_now = 1120, end_now = 1125\<rparr>;
        env = \<lparr>start_now = 995, video_ready = True, data_url = Some ''jpeg'',
                capture_now = 1000, idle_now = 1000\<rparr>;
        running = step (Click env) (init_system ''yolo'' [640, 640]);
        later = run [FetchSettled 0 reply, Click env, AnimationFrame 0 env]
                  (handleVisibilityChange True running)
    in \<not> liveDetection (component later) \<and> captures later = captures running
       \<and> requests later = requests running)"
  using hidden_stops_capture [of
      "[FetchSettled 0 \<lparr>fetched = FetchRejected, result_now = 1120, end_now = 1125\<rparr>,
        Click \<lparr>start_now = 995, video_ready = True, data_url = Some ''jpeg'',
                capture_now = 1000, idle_now = 1000\<rparr>,
        AnimationFrame 0 \<lparr>start_now = 995, video_ready = True, data_url = Some ''jpeg'',
                capture_now = 1000, idle_now = 1000\<rparr>]"
      "step (Click \<lparr>start_now = 995, video_ready = True, data_url = Some ''jpeg'',
                capture_now = 1000, idle_now = 1000\<rparr>) (init_system ''yolo'' [640, 640])"]
  by (simp add: Let_def)

text \<open>
  Claim C7 as stated fails in its second half. A loop runs, the tab is hidden, the
  request of the loop settles and its animation frame comes, the tab is shown again:
  the flag is down, no loop is left, and the one frame captured before stays the only
  one.
\<close>

theorem no_resume_after_visibility:
  "(let reply = \<lparr>fetched = Responded 200 (JsonParsed (BodyValue
                     \<lparr>frame_id = ''frame_0'', capture_ts = Num 1000, recv_ts = Num 1050,
                      inference_ts = Num 1090, detections = DetArray []\<rparr>)),
                  result_now = 1120, end_now = 1125\<rparr>;
        env = \<lparr>start_now = 995, video_ready = True, data_url = Some ''jpeg'',
                capture_now = 1000, idle_now = 1000\<rparr>;
        running = step (Click env) (init_system ''yolo'' [640, 640]);
        resumed = run [VisibilityChange True, FetchSettled 0 reply, AnimationFrame 0 env,
                       VisibilityChange False] running
    in liveDetection (component running) \<and> captures running = 1 \<and> tasks running = [AwaitFetch 995 0]
       \<and> \<not> liveDetection (component resumed) \<and> \<not> SSR (component resumed) \<and> tasks resumed = []
       \<and> captures resumed = 1)"
  by code_simp

subsection \<open>Requests\<close>

text \<open>
  Claim C8. Every request that \<open>sendFrameToServer\<close> posts is the record of
  \<open>frame_id\<close>, \<open>capture_ts\<close>, \<open>image_data\<close>, \<open>model_name\<close> and \<open>resolution\<close>,
  where \<open>frame_id\<close> is "frame_" followed by the value of the frame counter, which the
  call increments, \<open>capture_ts\<close> is the clock read at line 108 in the turn that
  captured the frame, and the other three are the encoded canvas, the model name and the
  model resolution. Whatever the events since the component was mounted, the requests
  posted carry the names of the counter values 0, 1, 2, ... in the order they were sent,
  so no two of them share a \<open>frame_id\<close>. A frame that cannot be encoded consumes no
  number.
\<close>

theorem frame_ids_unique:
  "map req_frame_id (requests (run evs (init_system name res)))
     = map frame_name [0..<frameCounter (component (run evs (init_system name res)))]
   \<and> distinct (map req_frame_id (requests (run evs (init_system name res))))
   \<and> fst (snd (sendFrameToServer (Some url) captureTs outcome now c))
       = Some \<lparr>req_frame_id = frame_name (frameCounter c),
                req_capture_ts = captureTs,
                image_data = url,
                model_name = modelName c,
                resolution = modelResolution c\<rparr>
   \<and> frameCounter (fst (sendFrameToServer (Some url) captureTs outcome now c))
       = Suc (frameCounter c)
   \<and> (videoCanvasRef s \<noteq> None \<and> data_url env = Some url \<longrightarrow>
        requests (snd (iteration env s))
          = requests s @ [\<lparr>req_frame_id = frame_name (frameCounter (component s)),
                            req_capture_ts = capture_now env,
                            image_data = url,
                            model_name = modelName (component s),
                            resolution = modelResolution (component s)\<rparr>])
   \<and> (data_url env = None \<longrightarrow>
        requests (snd (iteration env s)) = requests s
        \<and> frameCounter (component (snd (iteration env s))) = frameCounter (component s))"
proof -
  have "numbered (init_system name res)"
    by (simp add: numbered_def init_system_def init_comp_def)
  then have "numbered (run evs (init_system name res))"
    by (rule run_numbered)
  then have ids: "map req_frame_id (requests (run evs (init_system name res)))
     = map frame_name [0..<frameCounter (component (run evs (init_system name res)))]"
    by (simp add: numbered_def)
  have dist: "distinct (map req_frame_id (requests (run evs (init_system name res))))"
    unfolding ids by (rule distinct_frame_names)
  have call: "fst (snd (sendFrameToServer (Some url) captureTs outcome now c))
       = Some \<lparr>req_frame_id = frame_name (frameCounter c),
                req_capture_ts = captureTs,
                image_data = url,
                model_name = modelName c,
                resolution = modelResolution c\<rparr>"
    by (simp add: sendFrameToServer_def sendFrame_request_def split: prod.splits)
  have counter: "frameCounter (fst (sendFrameToServer (Some url) captureTs outcome now c))
       = Suc (frameCounter c)"
    using sendFrame_response_keeps(3) [of outcome now "c\<lparr>frameCounter := frameCounter c + 1\<rparr>"]
    by (auto simp: sendFrameToServer_def sendFrame_request_def split: prod.splits)
  have sent: "videoCanvasRef s \<noteq> None \<and> data_url env = Some url \<longrightarrow>
        requests (snd (iteration env s))
          = requests s @ [\<lparr>req_frame_id = frame_name (frameCounter (component s)),
                            req_capture_ts = capture_now env,
                            image_data = url,
                            model_name = modelName (component s),
                            resolution = modelResolution (component s)\<rparr>]"
    by (auto simp: iteration_def capture_def sendFrame_request_def)
  have unsent: "data_url env = None \<longrightarrow>
        requests (snd (iteration env s)) = requests s
        \<and> frameCounter (component (snd (iteration env s))) = frameCounter (component s)"
    by (auto simp: iteration_def capture_def sendFrame_request_def split: option.splits)
  from ids dist call counter sent unsent show ?thesis by blast
qed

text \<open>The theorem at the first turn of a loop, with a frame encoded and with none.\<close>

theorem frame_ids_unique_witness:
  "requests (snd (iteration
       \<lparr>start_now = 995, video_ready = True, data_url = Some ''jpeg'',
        capture_now = 1000, idle_now = 1000\<rparr> (init_system ''yolo'' [640, 640])))
     = [\<lparr>req_frame_id = ''frame_0'', req_capture_ts = 1000, image_data = ''jpeg'',
         model_name = ''yolo'', resolution = [640, 640]\<rparr>]
   \<and> requests (snd (iteration
       \<lparr>start_now = 995, video_ready = True, data_url = None,
        capture_now = 1000, idle_now = 1000\<rparr> (init_system ''yolo'' [640, 640]))) = []"
  using frame_ids_unique [of "[]" "''yolo''" "[640, 640]" "''jpeg''" 1000 FetchRejected 1000
      "init_comp ''yolo'' [640, 640]" "init_system ''yolo'' [640, 640]"
      "\<lparr>start_now = 995, video_ready = True, data_url = Some ''jpeg'',
        capture_now = 1000, idle_now = 1000\<rparr>"]
    frame_ids_unique [of "[]" "''yolo''" "[640, 640]" "''jpeg''" 1000 FetchRejected 1000
      "init_comp ''yolo'' [640, 640]" "init_system ''yolo'' [640, 640]"
      "\<lparr>start_now = 995, video_ready = True, data_url = None,
        capture_now = 1000, idle_now = 1000\<rparr>"]
  by (simp add: init_system_def init_comp_def frame_name_0)

text \<open>
  Claim C10 (the code departs from it). "Live Detection" is clicked while the request
  of a running loop is under way, which clears the flag, and clicked again before the
  request settles: line 203 sets the flag and a second loop starts and sends its frame.
  Two requests are in flight, and the first loop, which tests the flag only after its
  request and its animation frame, goes on beside the second.
\<close>

theorem two_requests_in_flight:
  "(let env = \<lparr>start_now = 995, video_ready = True, data_url = Some ''jpeg'',
                capture_now = 1000, idle_now = 1000\<rparr>;
        s = run [Click env, Click env,
                 Click \<lparr>start_now = 1030, video_ready = True, data_url = Some ''jpeg'',
                        capture_now = 1040, idle_now = 1040\<rparr>]
              (init_system ''yolo'' [640, 640])
    in in_flight s = 2 \<and> tasks s = [AwaitFetch 995 0, AwaitFetch 1030 0]
       \<and> map req_frame_id (requests s) = [''frame_0'', ''frame_1'']
       \<and> liveDetection (component s))"
  by code_simp

end
